theory Spec2Isabelle
  imports Main "HOL-Library.AList"
begin

section \<open>Values, errors and request models\<close>

text \<open>
  The service of \<^verbatim>\<open>app.py\<close>: a password hasher, a token issuer and verifier, a table of
  users reached through sessions, and six request handlers. Exceptions are values of the
  type \<open>error\<close>; a handler returns \<open>Inl\<close> of the exception it raises or \<open>Inr\<close> of its
  response, together with the state it leaves behind.
\<close>

datatype date = Date (year: int) (month: int) (day: int)

text \<open>The values a token payload can hold (JSON null, string, number).\<close>

datatype jvalue = JNull | JStr string | JNum int

type_synonym claims = "(string \<times> jvalue) list"

datatype jwt_reason = MalformedToken | SignatureInvalid | Expired

text \<open>
  \<open>HTTPException status_code detail headers\<close> is FastAPI's exception; \<open>IntegrityError\<close>
  is what the store raises at commit when a constraint is violated; \<open>JWTError\<close> is the
  token library's exception (the spec's InvalidToken); \<open>KeyError\<close> is Python's exception
  for indexing a dict at a missing key; \<open>OverflowError\<close> is what the SQLite driver raises
  when a statement is given an integer that does not fit a signed 64-bit value;
  \<open>OperationalError\<close> is what the store raises when the engine cannot run a statement.
\<close>

datatype error =
    HTTPException int string "(string \<times> string) list option"
  | IntegrityError
  | JWTError jwt_reason
  | KeyError string
  | OverflowError
  | OperationalError

record UserLogin =
  username :: string
  password :: string

text \<open>
  \<open>Optional[int]\<close> and \<open>Optional[date]\<close> fields: \<open>None\<close> stands for a field that the
  request body leaves out (or gives as null).
\<close>

record InputUser =
  username :: string
  nama :: string
  jenis_kelamin :: "int option"
  tanggal_lahir :: "date option"
  password :: string

section \<open>Credential hasher\<close>

text \<open>
  Modelled from the spec: the value that \<open>hash\<close> returns. The password context
  (\<^verbatim>\<open>passlib.CryptContext\<close> with bcrypt) is an external library; section 4.1 describes
  a salted one-way transform, so a hash is the salt drawn for it together with the digest
  of the password under that salt.
\<close>

datatype hashed = Hashed (salt: string) (digest: string)

text \<open>
  Modelled from the spec: \<open>hash(plaintext) -> hashed\<close>, with no failure for a string. The
  digest function \<open>kdf\<close> and the salt drawn at the call are parameters, so that two calls
  on one password can give different outputs.
\<close>

definition pwd_context_hash :: "(string \<Rightarrow> string \<Rightarrow> string) \<Rightarrow> string \<Rightarrow> string \<Rightarrow> hashed" where
  "pwd_context_hash kdf slt secret = Hashed slt (kdf slt secret)"

text \<open>
  Modelled from the spec: \<open>verify(plaintext, hashed) -> bool\<close>, which never raises: the
  digest of the plaintext under the salt of the hash is compared with the digest of the
  hash.
\<close>

definition pwd_context_verify :: "(string \<Rightarrow> string \<Rightarrow> string) \<Rightarrow> string \<Rightarrow> hashed \<Rightarrow> bool" where
  "pwd_context_verify kdf secret h = (digest h = kdf (salt h) secret)"

text \<open>The two functions of the source hand their arguments to the password context.\<close>

definition verify_password :: "(string \<Rightarrow> string \<Rightarrow> string) \<Rightarrow> string \<Rightarrow> hashed \<Rightarrow> bool" where
  "verify_password kdf plain_password hashed_password =
     pwd_context_verify kdf plain_password hashed_password"

definition get_password_hash :: "(string \<Rightarrow> string \<Rightarrow> string) \<Rightarrow> string \<Rightarrow> string \<Rightarrow> hashed" where
  "get_password_hash kdf slt pw = pwd_context_hash kdf slt pw"

section \<open>Tokens\<close>

datatype algorithm = HS256 | HS384 | HS512

text \<open>
  Modelled from the spec: a token. The token library (\<^verbatim>\<open>jose.jwt\<close>) is external; section
  4.2 describes a signed, self-contained token, so a well-formed token names its
  algorithm and carries its claims and a signature; any other string is \<open>Garbage\<close>.
\<close>

datatype 'sg token = Garbage string | JWS algorithm claims 'sg

text \<open>
  Modelled from the spec: \<open>jwt.encode\<close> signs the claims under the key. The signing
  function \<open>mac\<close> is a parameter.
\<close>

definition jwt_encode ::
  "(string \<Rightarrow> algorithm \<Rightarrow> claims \<Rightarrow> 'sg) \<Rightarrow> claims \<Rightarrow> string \<Rightarrow> algorithm \<Rightarrow> 'sg token" where
  "jwt_encode mac cl key alg = JWS alg cl (mac key alg cl)"

text \<open>
  Modelled from the spec: \<open>jwt.decode\<close> fails when the structure is malformed, when the
  signature does not verify (an algorithm the caller does not allow counts as such), or
  when the expiration has passed; otherwise it returns the claims. Time is the clock
  reading in whole seconds, the unit of the expiration claim; a token without that
  claim does not expire, and an expiration claim that is not a number is malformed.
\<close>

fun jwt_decode ::
  "(string \<Rightarrow> algorithm \<Rightarrow> claims \<Rightarrow> 'sg) \<Rightarrow> int \<Rightarrow> 'sg token \<Rightarrow> string \<Rightarrow> algorithm list
     \<Rightarrow> error + claims" where
  "jwt_decode mac now (Garbage _) key algorithms = Inl (JWTError MalformedToken)"
| "jwt_decode mac now (JWS alg cl sg) key algorithms =
     (if alg \<notin> set algorithms then Inl (JWTError SignatureInvalid)
      else if sg \<noteq> mac key alg cl then Inl (JWTError SignatureInvalid)
      else (case map_of cl ''exp'' of
              None \<Rightarrow> Inr cl
            | Some (JNum e) \<Rightarrow> if e < now then Inl (JWTError Expired) else Inr cl
            | Some _ \<Rightarrow> Inl (JWTError MalformedToken)))"

text \<open>
  \<open>create_access_token\<close>: copy the dict, set \<open>exp\<close> to the clock plus thirty minutes
  (\<open>dict.update\<close> replaces the value of a key already there and appends a new key), sign
  with the fixed key and algorithm.
\<close>

definition create_access_token ::
  "(string \<Rightarrow> algorithm \<Rightarrow> claims \<Rightarrow> 'sg) \<Rightarrow> int \<Rightarrow> claims \<Rightarrow> 'sg token" where
  "create_access_token mac now data =
     (let to_encode = data;
          expire = now + 30 * 60;
          to_encode = AList.update ''exp'' (JNum expire) to_encode;
          encoded_jwt = jwt_encode mac to_encode ''secret-key'' HS256
      in encoded_jwt)"

text \<open>
  \<open>verify_token\<close>: an exception of the decoder propagates; \<open>credentials["sub"]\<close> raises
  KeyError when the key is missing; a null subject raises the exception the caller
  supplied. The session argument is not used, as in the source.
\<close>

definition verify_token ::
  "(string \<Rightarrow> algorithm \<Rightarrow> claims \<Rightarrow> 'sg) \<Rightarrow> int \<Rightarrow> 'db \<Rightarrow> 'sg token \<Rightarrow> error \<Rightarrow> error + jvalue" where
  "verify_token mac now db tok credentials_exception =
     (case jwt_decode mac now tok ''secret-key'' [HS256] of
        Inl e \<Rightarrow> Inl e
      | Inr credentials \<Rightarrow>
          (case map_of credentials ''sub'' of
             None \<Rightarrow> Inl (KeyError ''sub'')
           | Some sub \<Rightarrow>
               if sub = JNull then Inl credentials_exception else Inr sub))"

section \<open>The user table and its sessions\<close>

text \<open>
  A row of the table \<open>users\<close>. The primary key is \<open>None\<close> on an object that has not been
  inserted yet and is assigned by the store at insertion.
\<close>

record User =
  user_id :: "int option"
  username :: string
  hashed_password :: hashed
  nama :: string
  jenis_kelamin :: "int option"
  tanggal_lahir :: "date option"

text \<open>
  The state of the process and its database: the rows of the table in insertion order,
  the sessions that are open, and the counter that numbers sessions.
\<close>

record app_state =
  users_table :: "User list"
  open_sessions :: "nat list"
  session_counter :: nat

definition SessionLocal :: "app_state \<Rightarrow> nat \<times> app_state" where
  "SessionLocal s =
     (session_counter s,
      s\<lparr>open_sessions := session_counter s # open_sessions s,
        session_counter := Suc (session_counter s)\<rparr>)"

definition db_close :: "nat \<Rightarrow> app_state \<Rightarrow> app_state" where
  "db_close db s = s\<lparr>open_sessions := removeAll db (open_sessions s)\<rparr>"

text \<open>
  \<open>get_db\<close> is a generator with \<open>try: yield db finally: db.close()\<close>: the handler that
  depends on it runs with the session, and the session is closed whatever the handler
  returns or raises.
\<close>

definition get_db :: "(nat \<Rightarrow> app_state \<Rightarrow> 'r \<times> app_state) \<Rightarrow> app_state \<Rightarrow> 'r \<times> app_state" where
  "get_db handler s =
     (let (db, s1) = SessionLocal s;
          (r, s2) = handler db s1
      in (r, db_close db s2))"

text \<open>\<open>db.query(User).filter(User.username == username).first()\<close>\<close>

definition get_user :: "nat \<Rightarrow> string \<Rightarrow> app_state \<Rightarrow> User option" where
  "get_user db uname s = find (\<lambda>u. User.username u = uname) (users_table s)"

text \<open>
  The database is SQLite (\<open>sqlite:///./test.db\<close>), whose INTEGER is a signed 64-bit
  value, while \<open>user_id: int\<close> and \<open>jenis_kelamin: Optional[int]\<close> are Python integers
  without bound. An integer outside that range cannot be given to a statement: the
  driver raises OverflowError before the statement runs.
\<close>

definition fits_int64 :: "int \<Rightarrow> bool" where
  "fits_int64 i = (- (2 ^ 63) \<le> i \<and> i < 2 ^ 63)"

definition bindable :: "int option \<Rightarrow> bool" where
  "bindable v = (case v of None \<Rightarrow> True | Some i \<Rightarrow> fits_int64 i)"

text \<open>
  \<open>db.query(User).filter(User.id == user_id).first()\<close>: raises for an id that does not
  fit, and otherwise answers with the first row of that key, if there is one.
\<close>

definition query_by_id :: "nat \<Rightarrow> int \<Rightarrow> app_state \<Rightarrow> error + User option" where
  "query_by_id db uid s =
     (if fits_int64 uid then Inr (find (\<lambda>u. User.user_id u = Some uid) (users_table s))
      else Inl OverflowError)"

text \<open>
  \<open>db.query(User).all()\<close>. The statement has no parameter, so it raises only when the
  engine cannot run it; \<open>engine_fault\<close> is the exception the engine raises then, and
  \<open>None\<close> when it answers. (A database on which the table \<open>users\<close> was never created is
  such a case: \<open>Base.metadata.create_all\<close> runs before the class \<open>User\<close> is declared.)
\<close>

definition db_query_all :: "nat \<Rightarrow> error option \<Rightarrow> app_state \<Rightarrow> error + User list" where
  "db_query_all db engine_fault s =
     (case engine_fault of Some e \<Rightarrow> Inl e | None \<Rightarrow> Inr (users_table s))"

text \<open>The key the store gives the next row: one more than the largest key in the table.\<close>

fun next_id :: "User list \<Rightarrow> int" where
  "next_id [] = 1"
| "next_id (r # rs) =
     (case User.user_id r of
        None \<Rightarrow> next_id rs
      | Some i \<Rightarrow> if rs = [] then i + 1 else max (i + 1) (next_id rs))"

text \<open>
  \<open>db.add(u); db.commit(); db.refresh(u)\<close>: the column \<open>username\<close> is declared
  \<open>unique=True\<close>, so the insert is refused with IntegrityError when a row with that
  username exists, and the table is as before; otherwise the row is appended with its
  key assigned, and the refreshed object is that row.
\<close>

definition db_add_commit :: "nat \<Rightarrow> User \<Rightarrow> app_state \<Rightarrow> error + (User \<times> app_state)" where
  "db_add_commit db u s =
     (if User.username u \<in> set (map User.username (users_table s)) then Inl IntegrityError
      else (let row = u\<lparr>user_id := Some (next_id (users_table s))\<rparr>
            in Inr (row, s\<lparr>users_table := users_table s @ [row]\<rparr>)))"

text \<open>\<open>db.delete(user); db.commit()\<close>: the row with the object's key is removed.\<close>

definition db_delete_commit :: "nat \<Rightarrow> User \<Rightarrow> app_state \<Rightarrow> app_state" where
  "db_delete_commit db u s =
     s\<lparr>users_table := filter (\<lambda>r. User.user_id r \<noteq> User.user_id u) (users_table s)\<rparr>"

text \<open>
  Assignments to attributes of a loaded object followed by \<open>db.commit()\<close>: the commit
  writes the assigned columns (\<open>nama\<close>, \<open>jenis_kelamin\<close>, \<open>tanggal_lahir\<close> are the only
  ones any handler assigns) of the row with the object's key. When the assigned
  \<open>jenis_kelamin\<close> does not fit, the commit raises OverflowError and writes nothing.
\<close>

definition db_update_commit :: "nat \<Rightarrow> User \<Rightarrow> app_state \<Rightarrow> error + app_state" where
  "db_update_commit db u s =
     (if bindable (User.jenis_kelamin u)
      then Inr (s\<lparr>users_table :=
                    map (\<lambda>r. if User.user_id r = User.user_id u
                             then r\<lparr>nama := User.nama u,
                                    jenis_kelamin := User.jenis_kelamin u,
                                    tanggal_lahir := User.tanggal_lahir u\<rparr>
                             else r)
                        (users_table s)\<rparr>)
      else Inl OverflowError)"

section \<open>Request handlers\<close>

text \<open>Python's \<open>str\<close> of an integer, for the f-strings of the confirmation messages.\<close>

fun str_nat :: "nat \<Rightarrow> string" where
  "str_nat n =
     (if n < 10 then [char_of (48 + n)] else str_nat (n div 10) @ [char_of (48 + n mod 10)])"

declare str_nat.simps [simp del]

definition str_int :: "int \<Rightarrow> string" where
  "str_int i = (if i < 0 then ''-'' @ str_nat (nat (- i)) else str_nat (nat i))"

record 'sg login_response =
  access_token :: "'sg token"
  token_type :: string

definition unauthorized :: error where
  "unauthorized =
     HTTPException 401 ''Invalid username or password'' (Some [(''WWW-Authenticate'', ''Bearer'')])"

definition not_found :: error where
  "not_found = HTTPException 404 ''User tidak ditemukan.'' None"

text \<open>
  \<open>login\<close> with its session argument; \<open>or\<close> evaluates the password check only when a
  user was found.
\<close>

definition login ::
  "(string \<Rightarrow> string \<Rightarrow> string) \<Rightarrow> (string \<Rightarrow> algorithm \<Rightarrow> claims \<Rightarrow> 'sg) \<Rightarrow> int \<Rightarrow> UserLogin
     \<Rightarrow> nat \<Rightarrow> app_state \<Rightarrow> (error + 'sg login_response) \<times> app_state" where
  "login kdf mac now user db s =
     (case get_user db (UserLogin.username user) s of
        None \<Rightarrow> (Inl unauthorized, s)
      | Some db_user \<Rightarrow>
          if \<not> verify_password kdf (UserLogin.password user) (User.hashed_password db_user)
          then (Inl unauthorized, s)
          else (let tok = create_access_token mac now [(''sub'', JStr (UserLogin.username user))]
                in (Inr \<lparr>access_token = tok, token_type = ''bearer''\<rparr>, s)))"

text \<open>\<open>POST /login\<close>: the handler under its dependency \<open>Depends(get_db)\<close>.\<close>

definition post_login ::
  "(string \<Rightarrow> string \<Rightarrow> string) \<Rightarrow> (string \<Rightarrow> algorithm \<Rightarrow> claims \<Rightarrow> 'sg) \<Rightarrow> int \<Rightarrow> UserLogin
     \<Rightarrow> app_state \<Rightarrow> (error + 'sg login_response) \<times> app_state" where
  "post_login kdf mac now user s = get_db (login kdf mac now user) s"

text \<open>
  \<open>create_user\<close> with its session argument. When the commit raises, the handler's own
  \<open>db.close()\<close> is not reached and the state is the one before the insert.
\<close>

definition create_user ::
  "(string \<Rightarrow> string \<Rightarrow> string) \<Rightarrow> string \<Rightarrow> InputUser \<Rightarrow> nat \<Rightarrow> app_state
     \<Rightarrow> (error + User) \<times> app_state" where
  "create_user kdf slt input_user db s =
     (let hashed_pw = get_password_hash kdf slt (InputUser.password input_user);
          db_user = \<lparr>user_id = None,
                     username = InputUser.username input_user,
                     hashed_password = hashed_pw,
                     nama = InputUser.nama input_user,
                     jenis_kelamin = InputUser.jenis_kelamin input_user,
                     tanggal_lahir = InputUser.tanggal_lahir input_user\<rparr>
      in (case db_add_commit db db_user s of
            Inl e \<Rightarrow> (Inl e, s)
          | Inr (db_user, s1) \<Rightarrow> (Inr db_user, db_close db s1)))"

text \<open>\<open>POST /users\<close>: the handler under its dependency \<open>Depends(get_db)\<close>.\<close>

definition post_users ::
  "(string \<Rightarrow> string \<Rightarrow> string) \<Rightarrow> string \<Rightarrow> InputUser \<Rightarrow> app_state \<Rightarrow> (error + User) \<times> app_state" where
  "post_users kdf slt input_user s = get_db (create_user kdf slt input_user) s"

text \<open>
  The four handlers below open their session themselves, \<open>db = SessionLocal()\<close>, and
  close it with a plain \<open>db.close()\<close> on the lines they reach; there is no
  \<open>try\<close>/\<open>finally\<close>. When a query or a commit raises, the exception leaves the handler
  at that line: the later \<open>db.close()\<close> is not run and the state is the one at the raise.
\<close>

definition daftar_user :: "error option \<Rightarrow> app_state \<Rightarrow> (error + User list) \<times> app_state" where
  "daftar_user engine_fault s =
     (let (db, s1) = SessionLocal s
      in (case db_query_all db engine_fault s1 of
            Inl e \<Rightarrow> (Inl e, s1)
          | Inr result_users \<Rightarrow>
              (let s2 = db_close db s1
               in (Inr result_users, s2))))"

definition get_users :: "int \<Rightarrow> app_state \<Rightarrow> (error + User) \<times> app_state" where
  "get_users uid s =
     (let (db, s1) = SessionLocal s
      in (case query_by_id db uid s1 of
            Inl e \<Rightarrow> (Inl e, s1)
          | Inr user \<Rightarrow>
              (let s2 = db_close db s1
               in (case user of
                     None \<Rightarrow> (Inl not_found, s2)
                   | Some u \<Rightarrow> (Inr u, s2)))))"

definition delete_user :: "int \<Rightarrow> app_state \<Rightarrow> (error + (string \<times> string) list) \<times> app_state" where
  "delete_user uid s =
     (let (db, s1) = SessionLocal s
      in (case query_by_id db uid s1 of
            Inl e \<Rightarrow> (Inl e, s1)
          | Inr None \<Rightarrow> (Inl not_found, db_close db s1)
          | Inr (Some user) \<Rightarrow>
              (let s2 = db_delete_commit db user s1;
                   s3 = db_close db s2
               in (Inr [(''message'', ''User dengan ID '' @ str_int uid @ '' berhasil dihapus.'')],
                   s3))))"

definition update_user ::
  "int \<Rightarrow> InputUser \<Rightarrow> app_state \<Rightarrow> (error + (string \<times> string) list) \<times> app_state" where
  "update_user uid input_user s =
     (let (db, s1) = SessionLocal s
      in (case query_by_id db uid s1 of
            Inl e \<Rightarrow> (Inl e, s1)
          | Inr None \<Rightarrow> (Inl not_found, db_close db s1)
          | Inr (Some existing_user) \<Rightarrow>
              (let existing_user = existing_user\<lparr>nama := InputUser.nama input_user\<rparr>;
                   existing_user =
                     existing_user\<lparr>jenis_kelamin := InputUser.jenis_kelamin input_user\<rparr>;
                   existing_user =
                     existing_user\<lparr>tanggal_lahir := InputUser.tanggal_lahir input_user\<rparr>
               in (case db_update_commit db existing_user s1 of
                     Inl e \<Rightarrow> (Inl e, s1)
                   | Inr s2 \<Rightarrow>
                       (let s3 = db_close db s2
                        in (Inr [(''message'',
                                  ''User dengan ID '' @ str_int uid @ '' berhasil diupdate.'')],
                            s3))))))"

section \<open>The states the service can reach\<close>

text \<open>
  One request is one step. The service starts on an empty table with no session open.
\<close>

definition initial_state :: app_state where
  "initial_state = \<lparr>users_table = [], open_sessions = [], session_counter = 0\<rparr>"

inductive step ::
  "(string \<Rightarrow> string \<Rightarrow> string) \<Rightarrow> (string \<Rightarrow> algorithm \<Rightarrow> claims \<Rightarrow> 'sg) \<Rightarrow> app_state \<Rightarrow> app_state \<Rightarrow> bool"
  for kdf and mac where
    step_login: "step kdf mac s (snd (post_login kdf mac now user s))"
  | step_create: "step kdf mac s (snd (post_users kdf slt input_user s))"
  | step_daftar: "step kdf mac s (snd (daftar_user engine_fault s))"
  | step_get: "step kdf mac s (snd (get_users uid s))"
  | step_delete: "step kdf mac s (snd (delete_user uid s))"
  | step_update: "step kdf mac s (snd (update_user uid input_user s))"

inductive reachable ::
  "(string \<Rightarrow> string \<Rightarrow> string) \<Rightarrow> (string \<Rightarrow> algorithm \<Rightarrow> claims \<Rightarrow> 'sg) \<Rightarrow> app_state \<Rightarrow> bool"
  for kdf and mac where
    reachable_init: "reachable kdf mac initial_state"
  | reachable_step: "reachable kdf mac s \<Longrightarrow> step kdf mac s s' \<Longrightarrow> reachable kdf mac s'"

text \<open>Sessions are numbered below the counter, so a new session is none of the open ones.\<close>

definition sessions_fresh :: "app_state \<Rightarrow> bool" where
  "sessions_fresh s = list_all (\<lambda>i. i < session_counter s) (open_sessions s)"

section \<open>A sample run\<close>

text \<open>
  Concrete parameters and states on which the theorems below are instantiated: a toy
  digest and signing function, the state after \<open>bob\<close> has been created on the empty
  table (the end-to-end scenario of the spec), and the state after \<open>alice\<close> has been
  created next.
\<close>

definition kdf0 :: "string \<Rightarrow> string \<Rightarrow> string" where
  "kdf0 slt pw = slt @ pw"

definition mac0 :: "string \<Rightarrow> algorithm \<Rightarrow> claims \<Rightarrow> string \<times> claims" where
  "mac0 key alg cl = (key, cl)"

definition bob_input :: InputUser where
  "bob_input =
     \<lparr>InputUser.username = ''bob'', InputUser.nama = ''Bob'',
      InputUser.jenis_kelamin = Some 1, InputUser.tanggal_lahir = Some (Date 1990 1 2),
      InputUser.password = ''pw123''\<rparr>"

definition bob_state :: app_state where
  "bob_state = snd (post_users kdf0 ''s1'' bob_input initial_state)"




text \<open>
  An update body that leaves out the date and gives a \<open>jenis_kelamin\<close> of \<open>2 ^ 63\<close>,
  the first integer that does not fit; the same number as an id.
\<close>

definition big_input :: InputUser where
  "big_input =
     \<lparr>InputUser.username = ''bob'', InputUser.nama = ''Robert'',
      InputUser.jenis_kelamin = Some 9223372036854775808, InputUser.tanggal_lahir = None,
      InputUser.password = ''pw123''\<rparr>"

definition big_id :: int where
  "big_id = 9223372036854775808"

section \<open>Facts about the store\<close>

lemma SessionLocal_table [simp]: "users_table (snd (SessionLocal s)) = users_table s"
  by (simp add: SessionLocal_def)

lemma db_close_table [simp]: "users_table (db_close db s) = users_table s"
  by (simp add: db_close_def)

lemma db_close_fields [simp]:
  "session_counter (db_close db s) = session_counter s"
  "open_sessions (db_close db s) = removeAll db (open_sessions s)"
  by (simp_all add: db_close_def)

lemma SessionLocal_fields [simp]:
  "fst (SessionLocal s) = session_counter s"
  "session_counter (snd (SessionLocal s)) = Suc (session_counter s)"
  "open_sessions (snd (SessionLocal s)) = session_counter s # open_sessions s"
  by (simp_all add: SessionLocal_def)

lemma bob_state_eq:
  "bob_state =
     \<lparr>users_table =
        [\<lparr>user_id = Some 1, username = ''bob'', hashed_password = Hashed ''s1'' ''s1pw123'',
          nama = ''Bob'', jenis_kelamin = Some 1, tanggal_lahir = Some (Date 1990 1 2)\<rparr>],
      open_sessions = [], session_counter = 1\<rparr>"
  by (simp add: bob_state_def post_users_def get_db_def create_user_def db_add_commit_def
      SessionLocal_def db_close_def initial_state_def bob_input_def Let_def
      get_password_hash_def pwd_context_hash_def kdf0_def)


lemma fits_int64_small [simp]: "fits_int64 1" "fits_int64 2"
  by (simp_all add: fits_int64_def)

lemma big_id_does_not_fit [simp]: "\<not> fits_int64 big_id" "\<not> fits_int64 9223372036854775808"
  by (simp_all add: fits_int64_def big_id_def)

lemma find_by_id_None:
  "find (\<lambda>u. User.user_id u = Some uid) rows = None
     \<longleftrightarrow> Some uid \<notin> set (map User.user_id rows)"
  by (force simp: find_None_iff)




lemma update_user_result:
  assumes "Some uid \<in> set (map User.user_id (users_table s))"
  shows "fst (update_user uid input_user s) =
           (if fits_int64 uid \<and> bindable (InputUser.jenis_kelamin input_user)
            then Inr [(''message'', ''User dengan ID '' @ str_int uid @ '' berhasil diupdate.'')]
            else Inl OverflowError)"
proof -
  obtain u where "find (\<lambda>u. User.user_id u = Some uid) (users_table s) = Some u"
    using assms by (cases "find (\<lambda>u. User.user_id u = Some uid) (users_table s)")
      (simp_all add: find_by_id_None)
  then show ?thesis
    by (simp add: update_user_def split_beta Let_def db_update_commit_def query_by_id_def)
qed


section \<open>Unknown ids\<close>

text \<open>
  C8, as the claim states it, fails: the id \<open>2 ^ 63\<close> is the key of no row of the
  table that holds \<open>bob\<close>, and \<open>get_users\<close> does not answer it with the 404 exception;
  it raises OverflowError.
\<close>

theorem absent_id_not_found_counterexample:
  "Some big_id \<notin> set (map User.user_id (users_table bob_state))
   \<and> fst (get_users big_id bob_state) \<noteq> Inl (HTTPException 404 ''User tidak ditemukan.'' None)
   \<and> fst (get_users big_id bob_state) = Inl OverflowError"
  by (simp add: bob_state_eq get_users_def split_beta query_by_id_def big_id_def)

text \<open>
  C8, amended: for every id that fits a signed 64-bit integer and that no row of the
  table has, \<open>get_users\<close>, \<open>delete_user\<close> and \<open>update_user\<close> each fail with the 404
  exception, and after the failed delete and the failed update the table is what it
  was; for an id that does not fit, each of the three raises OverflowError, and the
  table is what it was as well.
\<close>

theorem absent_id_in_range_not_found:
  "(Some uid \<notin> set (map User.user_id (users_table s)) \<and> fits_int64 uid \<longrightarrow>
       fst (get_users uid s) = Inl (HTTPException 404 ''User tidak ditemukan.'' None)
     \<and> fst (delete_user uid s) = Inl (HTTPException 404 ''User tidak ditemukan.'' None)
     \<and> users_table (snd (delete_user uid s)) = users_table s
     \<and> fst (update_user uid input_user s) = Inl (HTTPException 404 ''User tidak ditemukan.'' None)
     \<and> users_table (snd (update_user uid input_user s)) = users_table s)
   \<and> (\<not> fits_int64 uid \<longrightarrow>
       fst (get_users uid s) = Inl OverflowError
     \<and> fst (delete_user uid s) = Inl OverflowError
     \<and> users_table (snd (delete_user uid s)) = users_table s
     \<and> fst (update_user uid input_user s) = Inl OverflowError
     \<and> users_table (snd (update_user uid input_user s)) = users_table s)"
proof -
  have a: "find (\<lambda>u. User.user_id u = Some uid) (users_table s) = None"
    if "Some uid \<notin> set (map User.user_id (users_table s))"
    using that by (simp add: find_by_id_None)
  show ?thesis
    using a by (simp add: get_users_def delete_user_def update_user_def not_found_def
        split_beta query_by_id_def)
qed

theorem absent_id_in_range_not_found_witness:
  "Some 2 \<notin> set (map User.user_id (users_table bob_state))
   \<and> fits_int64 2
   \<and> fst (get_users 2 bob_state) = Inl (HTTPException 404 ''User tidak ditemukan.'' None)
   \<and> fst (delete_user 2 bob_state) = Inl (HTTPException 404 ''User tidak ditemukan.'' None)
   \<and> users_table (snd (delete_user 2 bob_state)) = users_table bob_state
   \<and> fst (update_user 2 bob_input bob_state) = Inl (HTTPException 404 ''User tidak ditemukan.'' None)
   \<and> users_table (snd (update_user 2 bob_input bob_state)) = users_table bob_state
   \<and> \<not> fits_int64 big_id
   \<and> fst (get_users big_id bob_state) = Inl OverflowError
   \<and> fst (delete_user big_id bob_state) = Inl OverflowError
   \<and> users_table (snd (delete_user big_id bob_state)) = users_table bob_state
   \<and> fst (update_user big_id bob_input bob_state) = Inl OverflowError
   \<and> users_table (snd (update_user big_id bob_input bob_state)) = users_table bob_state"
proof -
  have h: "Some 2 \<notin> set (map User.user_id (users_table bob_state))"
    by (simp add: bob_state_eq)
  show ?thesis
    using h absent_id_in_range_not_found [of 2 bob_state bob_input]
      absent_id_in_range_not_found [of big_id bob_state bob_input]
    by simp
qed

section \<open>What an update changes\<close>






section \<open>Sessions\<close>

lemma fresh_not_open: "sessions_fresh s \<Longrightarrow> session_counter s \<notin> set (open_sessions s)"
  by (auto simp: sessions_fresh_def list_all_iff)

lemma login_sessions:
  "open_sessions (snd (login kdf mac now user db s)) = open_sessions s"
  "session_counter (snd (login kdf mac now user db s)) = session_counter s"
  by (simp_all add: login_def Let_def split: option.split)

lemma create_user_sessions:
  "removeAll db (open_sessions (snd (create_user kdf slt input_user db s)))
     = removeAll db (open_sessions s)"
  "session_counter (snd (create_user kdf slt input_user db s)) = session_counter s"
  by (simp_all add: create_user_def db_add_commit_def Let_def)

text \<open>
  The two handlers under \<open>get_db\<close> leave open exactly the sessions that were open
  before the call, whatever they return or raise.
\<close>

lemma post_login_sessions:
  assumes "sessions_fresh s"
  shows "open_sessions (snd (post_login kdf mac now user s)) = open_sessions s
       \<and> session_counter (snd (post_login kdf mac now user s)) = Suc (session_counter s)"
  using fresh_not_open [OF assms]
  by (simp add: post_login_def get_db_def split_beta login_sessions)

lemma post_users_sessions:
  assumes "sessions_fresh s"
  shows "open_sessions (snd (post_users kdf slt input_user s)) = open_sessions s
       \<and> session_counter (snd (post_users kdf slt input_user s)) = Suc (session_counter s)"
  using fresh_not_open [OF assms]
  by (simp add: post_users_def get_db_def split_beta create_user_sessions)

text \<open>
  The four handlers that open their session themselves release it when no query and no
  commit raises, and leave it open when one does.
\<close>

lemma unguarded_sessions_without_raise:
  assumes "sessions_fresh s" and "fits_int64 uid"
    and "bindable (InputUser.jenis_kelamin input_user)"
  shows "open_sessions (snd (daftar_user None s)) = open_sessions s"
    and "open_sessions (snd (get_users uid s)) = open_sessions s"
    and "open_sessions (snd (delete_user uid s)) = open_sessions s"
    and "open_sessions (snd (update_user uid input_user s)) = open_sessions s"
  using fresh_not_open [OF assms(1)] assms(2,3)
  by (simp_all add: daftar_user_def db_query_all_def get_users_def delete_user_def
      update_user_def query_by_id_def db_delete_commit_def db_update_commit_def
      split_beta Let_def split: option.split)

lemma unguarded_sessions_at_raise:
  "open_sessions (snd (daftar_user (Some e) s)) = session_counter s # open_sessions s"
  "\<not> fits_int64 uid \<Longrightarrow>
     open_sessions (snd (get_users uid s)) = session_counter s # open_sessions s"
  "\<not> fits_int64 uid \<Longrightarrow>
     open_sessions (snd (delete_user uid s)) = session_counter s # open_sessions s"
  "\<not> fits_int64 uid \<Longrightarrow>
     open_sessions (snd (update_user uid input_user s)) = session_counter s # open_sessions s"
  "Some uid \<in> set (map User.user_id (users_table s)) \<Longrightarrow>
     \<not> bindable (InputUser.jenis_kelamin input_user) \<Longrightarrow>
     open_sessions (snd (update_user uid input_user s)) = session_counter s # open_sessions s"
proof -
  show "open_sessions (snd (daftar_user (Some e) s)) = session_counter s # open_sessions s"
    by (simp add: daftar_user_def db_query_all_def split_beta)
  show "\<not> fits_int64 uid \<Longrightarrow>
     open_sessions (snd (get_users uid s)) = session_counter s # open_sessions s"
    by (simp add: get_users_def query_by_id_def split_beta)
  show "\<not> fits_int64 uid \<Longrightarrow>
     open_sessions (snd (delete_user uid s)) = session_counter s # open_sessions s"
    by (simp add: delete_user_def query_by_id_def split_beta)
  show "\<not> fits_int64 uid \<Longrightarrow>
     open_sessions (snd (update_user uid input_user s)) = session_counter s # open_sessions s"
    by (simp add: update_user_def query_by_id_def split_beta)
  show "open_sessions (snd (update_user uid input_user s)) = session_counter s # open_sessions s"
    if ex: "Some uid \<in> set (map User.user_id (users_table s))"
      and nb: "\<not> bindable (InputUser.jenis_kelamin input_user)"
  proof -
    obtain u where "find (\<lambda>u. User.user_id u = Some uid) (users_table s) = Some u"
      using ex by (cases "find (\<lambda>u. User.user_id u = Some uid) (users_table s)")
        (simp_all add: find_by_id_None)
    with nb show ?thesis
      by (simp add: update_user_def query_by_id_def db_update_commit_def split_beta Let_def)
  qed
qed

text \<open>
  C9 (every handler is to release its session on every exit path, whether the call
  succeeds or fails): in the state that holds \<open>bob\<close> no session is open; \<open>get_users\<close>
  and \<open>delete_user\<close> on the id \<open>2 ^ 63\<close>, \<open>update_user\<close> of \<open>bob\<close> with a
  \<open>jenis_kelamin\<close> of \<open>2 ^ 63\<close>, and \<open>daftar_user\<close> when the engine raises, each fail and
  leave the session they opened, session 1, open; whereas \<open>POST /users\<close>, under
  \<open>get_db\<close>, fails on the duplicate username and leaves no session open.
\<close>

theorem unguarded_handlers_leave_session_open:
  "open_sessions bob_state = []
   \<and> fst (get_users big_id bob_state) = Inl OverflowError
   \<and> open_sessions (snd (get_users big_id bob_state)) = [1]
   \<and> fst (delete_user big_id bob_state) = Inl OverflowError
   \<and> open_sessions (snd (delete_user big_id bob_state)) = [1]
   \<and> fst (update_user 1 big_input bob_state) = Inl OverflowError
   \<and> open_sessions (snd (update_user 1 big_input bob_state)) = [1]
   \<and> fst (daftar_user (Some OperationalError) bob_state) = Inl OperationalError
   \<and> open_sessions (snd (daftar_user (Some OperationalError) bob_state)) = [1]
   \<and> fst (post_users kdf0 ''s2'' bob_input bob_state) = Inl IntegrityError
   \<and> open_sessions (snd (post_users kdf0 ''s2'' bob_input bob_state)) = []"
proof -
  have h: "Some 1 \<in> set (map User.user_id (users_table bob_state))"
    by (simp add: bob_state_eq)
  have b: "\<not> bindable (InputUser.jenis_kelamin big_input)"
    by (simp add: bindable_def big_input_def)
  have g: "fst (get_users big_id bob_state) = Inl OverflowError"
    "fst (delete_user big_id bob_state) = Inl OverflowError"
    "fst (daftar_user (Some OperationalError) bob_state) = Inl OperationalError"
    by (simp_all add: get_users_def delete_user_def daftar_user_def db_query_all_def
        query_by_id_def split_beta)
  have u: "fst (update_user 1 big_input bob_state) = Inl OverflowError"
    using b by (simp add: update_user_result [OF h])
  have p: "fst (post_users kdf0 ''s2'' bob_input bob_state) = Inl IntegrityError"
    "open_sessions (snd (post_users kdf0 ''s2'' bob_input bob_state)) = []"
    by (simp_all add: post_users_def get_db_def split_beta create_user_def db_add_commit_def
        Let_def bob_state_eq bob_input_def)
  have o: "open_sessions bob_state = []" "session_counter bob_state = 1"
    by (simp_all add: bob_state_eq)
  show ?thesis
    using g u p o b h by (simp add: unguarded_sessions_at_raise)
qed

section \<open>Login\<close>



section \<open>Issuing and decoding tokens\<close>

lemma create_access_token_eq:
  "create_access_token mac now data =
     JWS HS256 (AList.update ''exp'' (JNum (now + 1800)) data)
       (mac ''secret-key'' HS256 (AList.update ''exp'' (JNum (now + 1800)) data))"
  by (simp add: create_access_token_def jwt_encode_def Let_def)

lemma decode_issued:
  "jwt_decode mac t (create_access_token mac now data) ''secret-key'' [HS256] =
     (if now + 1800 < t then Inl (JWTError Expired)
      else Inr (AList.update ''exp'' (JNum (now + 1800)) data))"
  by (simp add: create_access_token_eq update_conv')

lemma issued_token_decodes_within_window:
  "t \<le> now + 1800 \<Longrightarrow>
   verify_token mac t db (create_access_token mac now [(''sub'', JStr u)]) credentials_exception
     = Inr (JStr u)"
  by (simp add: verify_token_def decode_issued)

lemma expired_token_rejected:
  assumes "map_of cl ''exp'' = Some (JNum e)" and "e < t"
  shows "\<exists>r. verify_token mac t db (JWS alg cl sg) credentials_exception = Inl (JWTError r)"
  using assms by (simp add: verify_token_def)

lemma verify_token_without_subject:
  "map_of cl ''sub'' = None \<Longrightarrow> map_of cl ''exp'' = Some (JNum e) \<Longrightarrow> t \<le> e \<Longrightarrow>
   verify_token mac t db (JWS HS256 cl (mac ''secret-key'' HS256 cl)) credentials_exception
     = Inl (KeyError ''sub'')"
  by (simp add: verify_token_def)

text \<open>
  C2: for every subject \<open>u\<close>, the token that \<open>create_access_token\<close> issues for
  \<open>{"sub": u}\<close>, decoded by \<open>verify_token\<close> at the time of issue under the same key and
  algorithm, decodes successfully to \<open>u\<close>.
\<close>

theorem issued_token_decodes_to_subject:
  "verify_token mac now db (create_access_token mac now [(''sub'', JStr u)]) credentials_exception
     = Inr (JStr u)"
  by (simp add: verify_token_def decode_issued)

theorem issued_token_decodes_to_subject_witness:
  "verify_token mac0 1000 () (create_access_token mac0 1000 [(''sub'', JStr ''bob'')])
     (HTTPException 401 ''Could not validate credentials'' None)
     = Inr (JStr ''bob'')"
  by (rule issued_token_decodes_to_subject)

text \<open>
  C3: every token that \<open>create_access_token\<close> issues carries the expiration claim
  \<open>exp\<close> equal to the time of issue plus thirty minutes; decoding an issued token after
  that time fails with the decoder's expiry error; and decoding any signed token whose
  expiration claim lies in the past fails with an error of the decoder.
\<close>

theorem issued_token_expires_after_30_minutes:
  "(\<exists>cl sg. create_access_token mac now data = JWS HS256 cl sg
            \<and> map_of cl ''exp'' = Some (JNum (now + 30 * 60)))
   \<and> (now + 30 * 60 < t \<longrightarrow>
        verify_token mac t db (create_access_token mac now data) credentials_exception
          = Inl (JWTError Expired))
   \<and> (map_of cl' ''exp'' = Some (JNum e) \<and> e < t \<longrightarrow>
        (\<exists>r. verify_token mac t db (JWS alg cl' sg') credentials_exception = Inl (JWTError r)))"
proof -
  have a: "\<exists>cl sg. create_access_token mac now data = JWS HS256 cl sg
            \<and> map_of cl ''exp'' = Some (JNum (now + 30 * 60))"
    by (simp add: create_access_token_eq update_conv')
  have b: "now + 30 * 60 < t \<longrightarrow>
        verify_token mac t db (create_access_token mac now data) credentials_exception
          = Inl (JWTError Expired)"
    by (simp add: verify_token_def decode_issued)
  show ?thesis
    using a b expired_token_rejected [of cl' e t mac db alg sg' credentials_exception] by blast
qed

theorem issued_token_expires_after_30_minutes_witness:
  "(\<exists>cl sg. create_access_token mac0 1000 [(''sub'', JStr ''bob'')] = JWS HS256 cl sg
            \<and> map_of cl ''exp'' = Some (JNum 2800))
   \<and> (1000::int) + 30 * 60 < 2801
   \<and> verify_token mac0 2801 () (create_access_token mac0 1000 [(''sub'', JStr ''bob'')])
        (HTTPException 401 ''Could not validate credentials'' None)
        = Inl (JWTError Expired)
   \<and> map_of [(''sub'', JStr ''bob''), (''exp'', JNum 5)] ''exp'' = Some (JNum 5)
   \<and> (5::int) < 2801
   \<and> (\<exists>r. verify_token mac0 2801 () (JWS HS256 [(''sub'', JStr ''bob''), (''exp'', JNum 5)] (''k'', []))
             (HTTPException 401 ''Could not validate credentials'' None) = Inl (JWTError r))"
  using issued_token_expires_after_30_minutes
    [of mac0 1000 "[(''sub'', JStr ''bob'')]" 2801 "()"
      "HTTPException 401 ''Could not validate credentials'' None"
      "[(''sub'', JStr ''bob''), (''exp'', JNum 5)]" 5 HS256 "(''k'', [])"]
  by simp

text \<open>
  C4 (a token whose signature verifies and whose payload has no subject claim is to fail
  with the exception the caller supplied): the token issued for the empty dict is signed
  with the service's key, is not expired and has no subject claim; \<open>verify_token\<close>
  fails on it with KeyError for the key \<open>sub\<close>, and not with the exception supplied.
\<close>

theorem verify_token_missing_subject_raises_KeyError:
  "verify_token mac0 0 () (create_access_token mac0 0 [])
     (HTTPException 401 ''Could not validate credentials'' None)
     = Inl (KeyError ''sub'')
   \<and> verify_token mac0 0 () (create_access_token mac0 0 [])
     (HTTPException 401 ''Could not validate credentials'' None)
     \<noteq> Inl (HTTPException 401 ''Could not validate credentials'' None)"
  by (simp add: verify_token_def decode_issued)

section \<open>Hashing and verifying passwords\<close>

text \<open>
  C5: for every password \<open>p\<close> and every salt, \<open>verify_password\<close> accepts \<open>p\<close> against
  \<open>get_password_hash\<close> of \<open>p\<close>; and for every plaintext and every hash,
  \<open>verify_password\<close> returns a boolean, which is true exactly when the hash is one that
  \<open>get_password_hash\<close> produces from that plaintext, and false on every other hash.
\<close>

theorem verify_accepts_exactly_own_hashes:
  "verify_password kdf p (get_password_hash kdf slt p)
   \<and> verify_password kdf p h = (\<exists>slt. h = get_password_hash kdf slt p)"
proof -
  have "verify_password kdf p h = (\<exists>slt. h = get_password_hash kdf slt p)"
    by (cases h) (auto simp: verify_password_def pwd_context_verify_def get_password_hash_def
        pwd_context_hash_def)
  then show ?thesis
    by (simp add: verify_password_def pwd_context_verify_def get_password_hash_def
        pwd_context_hash_def)
qed

theorem verify_accepts_exactly_own_hashes_witness:
  "verify_password kdf0 ''pw123'' (get_password_hash kdf0 ''s1'' ''pw123'')
   \<and> verify_password kdf0 ''wrong'' (get_password_hash kdf0 ''s1'' ''pw123'') = False
   \<and> get_password_hash kdf0 ''s1'' ''pw123'' \<noteq> get_password_hash kdf0 ''s2'' ''pw123''
   \<and> verify_password kdf0 ''pw123'' (get_password_hash kdf0 ''s2'' ''pw123'')"
  using verify_accepts_exactly_own_hashes [of kdf0 "''pw123''" "''s1''" "get_password_hash kdf0 ''s1'' ''pw123''"]
    verify_accepts_exactly_own_hashes [of kdf0 "''pw123''" "''s2''" "get_password_hash kdf0 ''s1'' ''pw123''"]
  by (simp add: verify_password_def pwd_context_verify_def get_password_hash_def
      pwd_context_hash_def kdf0_def)

section \<open>Uniqueness of usernames\<close>

lemma login_table [simp]: "users_table (snd (login kdf mac now user db s)) = users_table s"
  by (simp add: login_def Let_def split: option.split)












end
